theory Spec2Isabelle
  imports Main "HOL-Library.Multiset"
begin

section \<open>Strings of the JavaScript runtime\<close>

text \<open>
  A string is a list of characters with code points below 256: every literal of the routes
  lies in that range. \<open>toLowerCase\<close> is \<open>String.prototype.toLowerCase\<close> there: the
  letters A to Z and the Latin-1 capitals (0xC0 to 0xDE, without the multiplication sign
  0xD7) move up by 32, every other character stays.
\<close>

definition lowerChar :: "char \<Rightarrow> char" where
  "lowerChar c =
     (let n = (of_char c :: nat)
      in if (65 \<le> n \<and> n \<le> 90) \<or> (192 \<le> n \<and> n \<le> 222 \<and> n \<noteq> 215)
         then char_of (n + 32) else c)"

definition toLowerCase :: "string \<Rightarrow> string" where
  "toLowerCase s = map lowerChar s"

text \<open>\<open>startsWith\<close> and \<open>includes\<close>: \<open>hay.includes(needle)\<close> holds when the needle
  starts at some position of the haystack.\<close>

fun startsWith :: "string \<Rightarrow> string \<Rightarrow> bool" where
  "startsWith hay [] = True"
| "startsWith [] (n # ns) = False"
| "startsWith (h # hs) (n # ns) = (h = n \<and> startsWith hs ns)"

fun includes_str :: "string \<Rightarrow> string \<Rightarrow> bool" where
  "includes_str [] needle = (needle = [])"
| "includes_str (h # hs) needle = (startsWith (h # hs) needle \<or> includes_str hs needle)"

text \<open>
  \<open>aiMessage.match(/^[^.!?]+[.!?]/)?.[0] || aiMessage\<close>: the greedy run of characters
  other than a full stop, an exclamation mark and a question mark at the start of the
  string, which must not be empty, and the terminator that follows it. Without such a
  match (the string starts with a terminator, or holds none) the whole string is taken.
\<close>

definition isTerminator :: "char \<Rightarrow> bool" where
  "isTerminator c = (c = CHR ''.'' \<or> c = CHR ''!'' \<or> c = CHR ''?'')"

definition firstSentence :: "string \<Rightarrow> string" where
  "firstSentence aiMessage =
     (let run = takeWhile (\<lambda>c. \<not> isTerminator c) aiMessage;
          rest = dropWhile (\<lambda>c. \<not> isTerminator c) aiMessage
      in case rest of
           [] \<Rightarrow> aiMessage
         | t # _ \<Rightarrow> if run = [] then aiMessage else run @ [t])"

section \<open>Data model\<close>

datatype role = System | User | Assistant

record ChatMessage =
  role :: role
  content :: string

text \<open>Rows of the relational store. A row is found by its primary key, which is the key
  of the table's map. The routes read and write the car plate of a user; its other
  columns, which the routes pass on untouched, are kept by name and value. The name of an
  event stands for the columns that only the templates read.\<close>

record user =
  carPlate :: "string option"
  otherColumns :: "(string \<times> string) list"

record event =
  eventName :: string

record eventUser =
  userId :: string
  eventId :: string

record conversation =
  rowId :: nat
  conversationId :: string
  eventUserId :: string
  sender :: string
  message :: string
  createdAt :: nat

record db =
  conversations :: "conversation list"
  eventUsers :: "string \<rightharpoonup> eventUser"
  users :: "string \<rightharpoonup> user"
  events :: "string \<rightharpoonup> event"

text \<open>An event user as \<open>findUnique\<close> returns it with \<open>include\<close>: the row, its key and
  the related rows that were asked for and exist.\<close>

record eventUserWith =
  key :: string
  row :: eventUser
  withUser :: "user option"
  withEvent :: "event option"

text \<open>
  The module \<open>utils/messageTemplates\<close> is imported by the routes and is not part of the
  sources at hand: its templates are a parameter of every route that uses them.
\<close>

record messageTemplates =
  initialGreeting :: "user \<Rightarrow> event \<Rightarrow> ChatMessage"
  carRegistration :: "user \<Rightarrow> event \<Rightarrow> ChatMessage"
  finalRecommendation :: "user \<Rightarrow> event \<Rightarrow> ChatMessage"
  contactAdmin :: "user \<Rightarrow> event \<Rightarrow> ChatMessage"
  errorResponse :: ChatMessage

section \<open>The template override of smart-response\<close>

text \<open>The four conditions of the chain, in the order of the source (lines 130 to 150).\<close>

definition asksForPlate :: "string \<Rightarrow> bool" where
  "asksForPlate aiMessage =
     ((includes_str (toLowerCase aiMessage) ''provide your license plate'' \<or>
       includes_str (toLowerCase aiMessage) ''register your vehicle'') \<and>
      \<not> includes_str (toLowerCase aiMessage) ''already have your'')"

definition givesFinalDetails :: "string \<Rightarrow> bool" where
  "givesFinalDetails aiMessage =
     (includes_str (toLowerCase aiMessage) ''customized cards for visualization'' \<and>
      (includes_str (toLowerCase aiMessage) ''your final parking details'' \<or>
       includes_str (toLowerCase aiMessage) ''here is your final parking details'' \<or>
       includes_str (toLowerCase aiMessage) ''view interactive map''))"

definition refersToOrganizer :: "string \<Rightarrow> bool" where
  "refersToOrganizer aiMessage =
     (includes_str (toLowerCase aiMessage) ''contact the event organizer'' \<or>
      includes_str (toLowerCase aiMessage) ''meeting information incorrect'')"

definition mentionsSpecialNeeds :: "string \<Rightarrow> bool" where
  "mentionsSpecialNeeds aiMessage =
     (includes_str (toLowerCase aiMessage) ''parking'' \<and>
      includes_str (toLowerCase aiMessage) ''recommend'' \<and>
      (includes_str (toLowerCase aiMessage) ''pregnant'' \<or>
       includes_str (toLowerCase aiMessage) ''injury'' \<or>
       includes_str (toLowerCase aiMessage) ''accessibility''))"

definition blankLine :: string where
  "blankLine = [CHR 0x0A, CHR 0x0A]"

definition finalMessage :: "messageTemplates \<Rightarrow> user \<Rightarrow> event \<Rightarrow> string \<Rightarrow> string" where
  "finalMessage T u e aiMessage =
     (if asksForPlate aiMessage then content (carRegistration T u e)
      else if givesFinalDetails aiMessage then content (finalRecommendation T u e)
      else if refersToOrganizer aiMessage then content (contactAdmin T u e)
      else if mentionsSpecialNeeds aiMessage
        then firstSentence aiMessage @ blankLine @ content (finalRecommendation T u e)
      else aiMessage)"

section \<open>The store\<close>

text \<open>
  What a request does not decide itself is its environment: whether each of its store calls
  is answered (a call that is not answered rejects, and the route's \<open>catch\<close> block runs),
  the message of such a rejection, the key and the time stamp the store gives to a row it
  creates, and the answer of the completion API. Store calls are counted from 0 within one
  request.
\<close>

record chatRequest =
  messages :: "ChatMessage list"
  model :: string
  max_tokens :: nat
  stream :: bool

record env =
  answered :: "nat \<Rightarrow> bool"
  storeMessage :: string
  freshRowId :: nat
  clock :: nat
  completion :: "chatRequest \<Rightarrow> string + string option"

text \<open>\<open>prisma.conversation.create\<close>: the new row is appended to the table and returned.\<close>

definition prisma_conversation_create ::
  "env \<Rightarrow> nat \<Rightarrow> db \<Rightarrow> string \<Rightarrow> string \<Rightarrow> string \<Rightarrow> string \<Rightarrow> string + (conversation \<times> db)" where
  "prisma_conversation_create E n d cid euid sndr msg =
     (if answered E n
      then (let c = \<lparr>rowId = freshRowId E, conversationId = cid, eventUserId = euid,
                      sender = sndr, message = msg, createdAt = clock E\<rparr>
            in Inr (c, d\<lparr>conversations := conversations d @ [c]\<rparr>))
      else Inl (storeMessage E))"

text \<open>\<open>prisma.conversation.findMany\<close> with \<open>where: { eventUserId }\<close>,
  \<open>orderBy: { createdAt: 'asc' }\<close> and an optional \<open>take\<close>: the matching rows are
  ordered first and cut afterwards.\<close>

definition prisma_conversation_findMany ::
  "env \<Rightarrow> nat \<Rightarrow> db \<Rightarrow> string \<Rightarrow> nat option \<Rightarrow> string + conversation list" where
  "prisma_conversation_findMany E n d euid limit =
     (if answered E n
      then (let rows = sort_key createdAt (filter (\<lambda>c. eventUserId c = euid) (conversations d))
            in Inr (case limit of None \<Rightarrow> rows | Some k \<Rightarrow> take k rows))
      else Inl (storeMessage E))"

text \<open>\<open>prisma.eventUser.findUnique\<close> with \<open>where: { id }\<close> and \<open>include\<close>.\<close>

definition prisma_eventUser_findUnique ::
  "env \<Rightarrow> nat \<Rightarrow> db \<Rightarrow> string \<Rightarrow> bool \<Rightarrow> bool \<Rightarrow> string + eventUserWith option" where
  "prisma_eventUser_findUnique E n d k inclUser inclEvent =
     (if answered E n
      then Inr (case eventUsers d k of
                  None \<Rightarrow> None
                | Some r \<Rightarrow>
                    Some \<lparr>key = k, row = r,
                          withUser = (if inclUser then users d (userId r) else None),
                          withEvent = (if inclEvent then events d (eventId r) else None)\<rparr>)
      else Inl (storeMessage E))"

text \<open>\<open>prisma.user.update\<close> with \<open>where: { id }\<close> and \<open>data: { carPlate }\<close>: it rejects
  when no row has the key.\<close>

definition prisma_user_update ::
  "env \<Rightarrow> nat \<Rightarrow> db \<Rightarrow> string \<Rightarrow> string \<Rightarrow> string + (user \<times> db)" where
  "prisma_user_update E n d uid plate =
     (if answered E n
      then (case users d uid of
              None \<Rightarrow> Inl (storeMessage E)
            | Some u \<Rightarrow>
                (let u' = u\<lparr>carPlate := Some plate\<rparr>
                 in Inr (u', d\<lparr>users := (users d)(uid \<mapsto> u')\<rparr>)))
      else Inl (storeMessage E))"

section \<open>The conversation routes\<close>

datatype json =
    ErrorJson string
  | ErrorDetailsJson string string
  | ConversationJson conversation
  | ConversationsJson "conversation list"
  | MessageJson string
  | TemplateJson ChatMessage
  | EventUserJson "eventUserWith option"

datatype response = Response (status: nat) (body: json)

text \<open>\<open>POST /\<close>: the fields of the request body are the last three arguments.\<close>

definition createConversation ::
  "env \<Rightarrow> db \<Rightarrow> string \<Rightarrow> string \<Rightarrow> string \<Rightarrow> response \<times> db" where
  "createConversation E d euid sndr msg =
     (case prisma_conversation_create E 0 d euid euid sndr msg of
        Inl err \<Rightarrow> (Response 500 (ErrorJson ''Failed to create conversation''), d)
      | Inr (c, d') \<Rightarrow> (Response 201 (ConversationJson c), d'))"

text \<open>\<open>GET /:eventUserId\<close>.\<close>

definition getConversations :: "env \<Rightarrow> db \<Rightarrow> string \<Rightarrow> response \<times> db" where
  "getConversations E d euid =
     (case prisma_conversation_findMany E 0 d euid None of
        Inl err \<Rightarrow> (Response 500 (ErrorJson ''Failed to fetch conversations''), d)
      | Inr cs \<Rightarrow> (Response 200 (ConversationsJson cs), d))"

text \<open>\<open>POST /smart-response\<close>. The result is the response, the store afterwards and the
  requests that were sent to the completion API. The request's \<open>temperature\<close>, a
  floating-point constant, is left out of \<open>chatRequest\<close>.\<close>

definition formatMessage :: "conversation \<Rightarrow> ChatMessage" where
  "formatMessage msg =
     \<lparr>role = (if sender msg = ''user'' then User else Assistant), content = message msg\<rparr>"

definition smartFailure :: "string \<Rightarrow> response" where
  "smartFailure details = Response 500 (ErrorDetailsJson ''Failed to get AI response'' details)"

text \<open>The request of lines 91 to 116, from the user and the event of the event user, the
  fetched history and the new message of the request body.\<close>

definition completionRequest ::
  "messageTemplates \<Rightarrow> user \<Rightarrow> event \<Rightarrow> conversation list \<Rightarrow> string \<Rightarrow> chatRequest" where
  "completionRequest T u e conversationHistory msg =
     (let formattedHistory = map formatMessage conversationHistory
      in \<lparr>messages = [initialGreeting T u e] @ formattedHistory @
                       [\<lparr>role = User, content = msg\<rparr>],
          model = ''llama-3.3-70b-versatile'', max_tokens = 150, stream = False\<rparr>)"

text \<open>\<open>response.data.choices[0]?.message?.content || ''\<close>: the answer of the API is the
  content of its first choice, \<open>None\<close> when there is none.\<close>

definition replyText :: "string option \<Rightarrow> string" where
  "replyText reply = (case reply of None \<Rightarrow> [] | Some s \<Rightarrow> s)"

definition smartResponse ::
  "messageTemplates \<Rightarrow> env \<Rightarrow> db \<Rightarrow> string \<Rightarrow> string \<Rightarrow> response \<times> db \<times> chatRequest list" where
  "smartResponse T E d euid msg =
     (case prisma_eventUser_findUnique E 0 d euid True True of
        Inl err \<Rightarrow> (smartFailure err, d, [])
      | Inr None \<Rightarrow> (smartFailure ''Event user data not found'', d, [])
      | Inr (Some eu) \<Rightarrow>
          (case withUser eu of
             None \<Rightarrow> (smartFailure ''Event user data not found'', d, [])
           | Some u \<Rightarrow>
          (case withEvent eu of
             None \<Rightarrow> (smartFailure ''Event user data not found'', d, [])
           | Some e \<Rightarrow>
          (case prisma_conversation_findMany E 1 d euid (Some 10) of
             Inl err \<Rightarrow> (smartFailure err, d, [])
           | Inr conversationHistory \<Rightarrow>
               (let request = completionRequest T u e conversationHistory msg
                in case completion E request of
                     Inl err \<Rightarrow> (smartFailure err, d, [request])
                   | Inr reply \<Rightarrow>
                       (let aiMessage = replyText reply;
                            final = finalMessage T u e aiMessage
                        in case prisma_conversation_create E 2 d euid euid ''bot'' final of
                             Inl err \<Rightarrow> (smartFailure err, d, [request])
                           | Inr (c, d') \<Rightarrow>
                               (Response 200 (MessageJson final), d', [request])))))))"

text \<open>\<open>POST /chat\<close>. A body whose \<open>message\<close> is missing or is not a string makes
  \<open>message.toLowerCase()\<close> throw: that is \<open>None\<close>. The templates are total
  functions of the user and the event, so an error inside a template is not part of the
  model. The result is the response that was sent, if any; the store is not touched.\<close>

definition chat :: "messageTemplates \<Rightarrow> string option \<Rightarrow> user \<Rightarrow> event \<Rightarrow> response option" where
  "chat T msg u e =
     (case msg of
        None \<Rightarrow> Some (Response 500 (TemplateJson (errorResponse T)))
      | Some m \<Rightarrow>
          if toLowerCase m = ''no'' then Some (Response 200 (TemplateJson (contactAdmin T u e)))
          else None)"

text \<open>\<open>POST /register-plate\<close>.\<close>

definition registerPlate :: "env \<Rightarrow> db \<Rightarrow> string \<Rightarrow> string \<Rightarrow> response \<times> db" where
  "registerPlate E d euid plate =
     (case prisma_eventUser_findUnique E 0 d euid True False of
        Inl err \<Rightarrow> (Response 500 (ErrorJson ''Failed to register car plate''), d)
      | Inr None \<Rightarrow> (Response 404 (ErrorJson ''Event user not found''), d)
      | Inr (Some eu) \<Rightarrow>
          (case prisma_user_update E 1 d (userId (row eu)) plate of
             Inl err \<Rightarrow> (Response 500 (ErrorJson ''Failed to register car plate''), d)
           | Inr (updatedUser, d') \<Rightarrow>
               (case prisma_eventUser_findUnique E 2 d' euid True True of
                  Inl err \<Rightarrow> (Response 500 (ErrorJson ''Failed to register car plate''), d')
                | Inr updatedEventUser \<Rightarrow>
                    (Response 200 (EventUserJson updatedEventUser), d'))))"

section \<open>The frontend's user slice\<close>

record User =
  id_User :: string
  email :: string
  firstName :: string
  lastName :: string
  carPlate_User :: "string option"

record UserState =
  user :: "User option"
  loading :: bool
  error :: "string option"

definition initialState :: UserState where
  "initialState = \<lparr>user = None, loading = False, error = None\<rparr>"

text \<open>The payload of \<open>setUser\<close> is a \<open>UserState\<close> without \<open>loading\<close> and \<open>error\<close>: an
  object with the one field \<open>user\<close>.\<close>

record UserPayload =
  payload_user :: "User option"

definition setUser :: "UserState \<Rightarrow> UserPayload \<Rightarrow> UserState" where
  "setUser state payload = state\<lparr>user := payload_user payload\<rparr>"

definition setLoading :: "UserState \<Rightarrow> bool \<Rightarrow> UserState" where
  "setLoading state payload = state\<lparr>loading := payload\<rparr>"

definition setError :: "UserState \<Rightarrow> string option \<Rightarrow> UserState" where
  "setError state payload = state\<lparr>error := payload\<rparr>"

section \<open>First match over a list of rules\<close>

text \<open>
  The chain of smart-response as the specification words it: a fixed sequence of rules,
  each a condition on the reply and the message that overrides it; the first rule whose
  condition holds decides, and the reply is kept when none does.
\<close>

type_synonym rule = "(string \<Rightarrow> bool) \<times> (string \<Rightarrow> string)"

fun firstMatch :: "rule list \<Rightarrow> string \<Rightarrow> string" where
  "firstMatch [] aiMessage = aiMessage"
| "firstMatch ((holds, override) # rules) aiMessage =
     (if holds aiMessage then override aiMessage else firstMatch rules aiMessage)"

definition overrideRules :: "messageTemplates \<Rightarrow> user \<Rightarrow> event \<Rightarrow> rule list" where
  "overrideRules T u e =
     [(asksForPlate, \<lambda>aiMessage. content (carRegistration T u e)),
      (givesFinalDetails, \<lambda>aiMessage. content (finalRecommendation T u e)),
      (refersToOrganizer, \<lambda>aiMessage. content (contactAdmin T u e)),
      (mentionsSpecialNeeds,
         \<lambda>aiMessage. firstSentence aiMessage @ blankLine @ content (finalRecommendation T u e))]"

section \<open>Sample data\<close>

text \<open>Stand-ins for the templates, a store and an environment, to run the routes on.\<close>

definition demoTemplates :: messageTemplates where
  "demoTemplates =
     \<lparr>initialGreeting = (\<lambda>u e. \<lparr>role = System, content = ''greet '' @ eventName e\<rparr>),
      carRegistration = (\<lambda>u e. \<lparr>role = Assistant, content = ''plate?''\<rparr>),
      finalRecommendation = (\<lambda>u e. \<lparr>role = Assistant, content = ''final''\<rparr>),
      contactAdmin = (\<lambda>u e. \<lparr>role = Assistant, content = ''admin''\<rparr>),
      errorResponse = \<lparr>role = Assistant, content = ''error''\<rparr>\<rparr>"

definition demoUser :: user where
  "demoUser = \<lparr>carPlate = None, otherColumns = [(''firstName'', ''Ada'')]\<rparr>"

definition demoEvent :: event where
  "demoEvent = \<lparr>eventName = ''expo''\<rparr>"

definition demoRow :: "nat \<Rightarrow> string \<Rightarrow> string \<Rightarrow> conversation" where
  "demoRow n euid who =
     \<lparr>rowId = n, conversationId = euid, eventUserId = euid, sender = who,
      message = ''m'', createdAt = n\<rparr>"

definition demoDb :: db where
  "demoDb =
     \<lparr>conversations =
        [demoRow 1 ''eu1'' ''user'', demoRow 2 ''eu1'' ''bot'', demoRow 3 ''eu2'' ''user'',
         demoRow 4 ''eu1'' ''user'', demoRow 5 ''eu1'' ''bot'', demoRow 6 ''eu1'' ''user'',
         demoRow 7 ''eu1'' ''bot'', demoRow 8 ''eu1'' ''user'', demoRow 9 ''eu1'' ''bot'',
         demoRow 10 ''eu1'' ''user'', demoRow 11 ''eu1'' ''bot'', demoRow 12 ''eu1'' ''user''],
      eventUsers = [''eu1'' \<mapsto> \<lparr>userId = ''u1'', eventId = ''e1''\<rparr>],
      users = [''u1'' \<mapsto> demoUser],
      events = [''e1'' \<mapsto> demoEvent]\<rparr>"

definition demoEnv :: "bool \<Rightarrow> string + string option \<Rightarrow> env" where
  "demoEnv up reply =
     \<lparr>answered = (\<lambda>n. up), storeMessage = ''store unavailable'', freshRowId = 100,
      clock = 50, completion = (\<lambda>request. reply)\<rparr>"

text \<open>An environment whose store answers the first \<open>k\<close> calls of a request and
  rejects the later ones.\<close>

definition demoEnvFirst :: "nat \<Rightarrow> env" where
  "demoEnvFirst k =
     \<lparr>answered = (\<lambda>n. n < k), storeMessage = ''store unavailable'', freshRowId = 100,
      clock = 50, completion = (\<lambda>request. Inr None)\<rparr>"

text \<open>A run of smart-response on the sample store, with a reply of the completion API
  that recommends parking to a pregnant user.\<close>

definition demoReply :: string where
  "demoReply = ''Recommend PARKING: pregnant. Ok''"

definition demoRun :: "response \<times> db \<times> chatRequest list" where
  "demoRun =
     smartResponse demoTemplates (demoEnv True (Inr (Some demoReply))) demoDb ''eu1'' ''hi''"

section \<open>The string functions against their meaning\<close>

text \<open>\<open>includes\<close> holds exactly when the needle is a contiguous part of the
  haystack.\<close>

lemma startsWith_iff: "startsWith hay needle \<longleftrightarrow> (\<exists>s. hay = needle @ s)"
  by (induction hay needle rule: startsWith.induct) auto

lemma includes_str_iff: "includes_str hay needle \<longleftrightarrow> (\<exists>p s. hay = p @ needle @ s)"
proof (induction hay)
  case Nil
  then show ?case by auto
next
  case (Cons h hs)
  have "(\<exists>p s. h # hs = p @ needle @ s) \<longleftrightarrow>
        (\<exists>s. h # hs = needle @ s) \<or> (\<exists>p s. hs = p @ needle @ s)"
    by (auto simp: Cons_eq_append_conv)
  with Cons show ?case
    by (simp add: startsWith_iff del: startsWith.simps)
qed

text \<open>The regular expression of the first sentence matches a non-empty run without
  terminators that a terminator follows, and nothing else.\<close>

lemma firstSentence_match:
  assumes "run \<noteq> []" and "\<forall>c\<in>set run. \<not> isTerminator c" and "isTerminator t"
  shows "firstSentence (run @ t # rest) = run @ [t]"
  using assms by (simp add: firstSentence_def Let_def)

lemma firstSentence_no_terminator:
  assumes "\<forall>c\<in>set s. \<not> isTerminator c"
  shows "firstSentence s = s"
proof -
  have none: "dropWhile (\<lambda>c. \<not> isTerminator c) s = []"
    using assms by simp
  show ?thesis
    unfolding firstSentence_def Let_def none by simp
qed

lemma firstSentence_leading_terminator:
  assumes "isTerminator t"
  shows "firstSentence (t # rest) = t # rest"
  using assms by (simp add: firstSentence_def Let_def)

section \<open>What a run of smart-response can be\<close>

text \<open>
  Either the lookups fail, nothing is sent to the completion API and the store is left as
  it was; or exactly one request is sent, built from the event user's rows and the ten
  first rows of the ordered history, and then either the route fails, with the store as
  it was, or the final message is stored as one new row of the bot and returned.
\<close>

lemma smartResponse_cases:
  assumes "smartResponse T E d euid msg = (res, d', sent)"
  shows "(sent = [] \<and> d' = d \<and> (\<exists>details. res = smartFailure details) \<and>
      \<not> (answered E 0 \<and> answered E 1 \<and>
         (\<exists>r u e. eventUsers d euid = Some r \<and> users d (userId r) = Some u \<and>
                  events d (eventId r) = Some e))) \<or>
    (\<exists>r u e hist req. answered E 0 \<and> answered E 1 \<and> eventUsers d euid = Some r \<and>
        users d (userId r) = Some u \<and> events d (eventId r) = Some e \<and>
        hist = take 10 (sort_key createdAt
                 (filter (\<lambda>c. eventUserId c = euid) (conversations d))) \<and>
        prisma_conversation_findMany E 1 d euid (Some 10) = Inr hist \<and>
        req = completionRequest T u e hist msg \<and> sent = [req] \<and>
        ((d' = d \<and> (\<exists>details. res = smartFailure details)) \<or>
         (\<exists>reply c. completion E req = Inr reply \<and> answered E 2 \<and>
            c = \<lparr>rowId = freshRowId E, conversationId = euid, eventUserId = euid,
                  sender = ''bot'', message = finalMessage T u e (replyText reply),
                  createdAt = clock E\<rparr> \<and>
            res = Response 200 (MessageJson (finalMessage T u e (replyText reply))) \<and>
            d' = d\<lparr>conversations := conversations d @ [c]\<rparr>)))"
  using assms
  unfolding smartResponse_def prisma_eventUser_findUnique_def prisma_conversation_findMany_def
    prisma_conversation_create_def
  by (auto simp: Let_def split: sum.splits option.splits if_splits)

lemma finalMessage_options:
  "finalMessage T u e ai = ai \<or>
   finalMessage T u e ai = content (carRegistration T u e) \<or>
   finalMessage T u e ai = content (finalRecommendation T u e) \<or>
   finalMessage T u e ai = content (contactAdmin T u e) \<or>
   (mentionsSpecialNeeds ai \<and>
    finalMessage T u e ai = firstSentence ai @ blankLine @ content (finalRecommendation T u e))"
  by (simp add: finalMessage_def)

lemma sorted_take_le_drop:
  assumes "sorted (map f xs)"
  shows "\<forall>a\<in>set (take n xs). \<forall>b\<in>set (drop n xs). f a \<le> f b"
proof -
  have "sorted (map f (take n xs) @ map f (drop n xs))"
    using assms by (simp flip: map_append)
  then show ?thesis
    by (auto simp: sorted_append)
qed

lemma demoRun_triple: "demoRun = (fst demoRun, fst (snd demoRun), snd (snd demoRun))"
  by simp

lemma demoRun_response:
  "fst demoRun = Response 200 (MessageJson ''Recommend PARKING: pregnant.\<newline>\<newline>final'')"
  by code_simp

lemma demoRun_sent: "snd (snd demoRun) \<noteq> []"
  by code_simp

text \<open>The two other routes that write, as equations.\<close>

lemma createConversation_eq:
  "createConversation E d euid sndr m =
     (if answered E 0
      then (Response 201 (ConversationJson
              \<lparr>rowId = freshRowId E, conversationId = euid, eventUserId = euid,
               sender = sndr, message = m, createdAt = clock E\<rparr>),
            d\<lparr>conversations := conversations d @
              [\<lparr>rowId = freshRowId E, conversationId = euid, eventUserId = euid,
                sender = sndr, message = m, createdAt = clock E\<rparr>]\<rparr>)
      else (Response 500 (ErrorJson ''Failed to create conversation''), d))"
  by (simp add: createConversation_def prisma_conversation_create_def Let_def)

lemma registerPlate_eq:
  "registerPlate E d euid plate =
     (if \<not> answered E 0 then (Response 500 (ErrorJson ''Failed to register car plate''), d)
      else case eventUsers d euid of
        None \<Rightarrow> (Response 404 (ErrorJson ''Event user not found''), d)
      | Some r \<Rightarrow>
          (if \<not> answered E 1 then (Response 500 (ErrorJson ''Failed to register car plate''), d)
           else case users d (userId r) of
             None \<Rightarrow> (Response 500 (ErrorJson ''Failed to register car plate''), d)
           | Some u \<Rightarrow>
               (if \<not> answered E 2
                then (Response 500 (ErrorJson ''Failed to register car plate''),
                      d\<lparr>users := (users d)(userId r \<mapsto> u\<lparr>carPlate := Some plate\<rparr>)\<rparr>)
                else (Response 200 (EventUserJson (Some
                        \<lparr>key = euid, row = r, withUser = Some (u\<lparr>carPlate := Some plate\<rparr>),
                         withEvent = events d (eventId r)\<rparr>)),
                      d\<lparr>users := (users d)(userId r \<mapsto> u\<lparr>carPlate := Some plate\<rparr>)\<rparr>))))"
  by (simp add: registerPlate_def prisma_eventUser_findUnique_def prisma_user_update_def Let_def
        split: option.splits)

section \<open>The final message of smart-response\<close>

text \<open>
  Claim C1, as the code has it. Whenever smart-response answers with a message, that
  message is the reply of the completion API unchanged, or the content of one of the
  templates carRegistration, finalRecommendation and contactAdmin, or, for a reply about
  special needs, the first sentence of the reply, a blank line and the content of
  finalRecommendation; and the row the route adds to the store holds this same message.
\<close>

theorem smartResponse_final_message:
  assumes "smartResponse T E d euid msg = (Response 200 (MessageJson m), d', sent)"
  shows "\<exists>r u e req reply c.
     eventUsers d euid = Some r \<and> users d (userId r) = Some u \<and>
     events d (eventId r) = Some e \<and> sent = [req] \<and> completion E req = Inr reply \<and>
     (m = replyText reply \<or>
      m = content (carRegistration T u e) \<or>
      m = content (finalRecommendation T u e) \<or>
      m = content (contactAdmin T u e) \<or>
      (mentionsSpecialNeeds (replyText reply) \<and>
       m = firstSentence (replyText reply) @ blankLine @
             content (finalRecommendation T u e))) \<and>
     conversations d' = conversations d @ [c] \<and> message c = m"
proof -
  from smartResponse_cases [OF assms]
  obtain r u e req reply c where
    rows: "eventUsers d euid = Some r" "users d (userId r) = Some u"
      "events d (eventId r) = Some e" and
    sent: "sent = [req]" "completion E req = Inr reply" and
    m: "m = finalMessage T u e (replyText reply)" and
    c: "c = \<lparr>rowId = freshRowId E, conversationId = euid, eventUserId = euid,
               sender = ''bot'', message = finalMessage T u e (replyText reply),
               createdAt = clock E\<rparr>" and
    d': "d' = d\<lparr>conversations := conversations d @ [c]\<rparr>"
    by (auto simp: smartFailure_def)
  have stored: "conversations d' = conversations d @ [c]" "message c = m"
    using m c d' by simp_all
  have opts: "m = replyText reply \<or>
      m = content (carRegistration T u e) \<or>
      m = content (finalRecommendation T u e) \<or>
      m = content (contactAdmin T u e) \<or>
      (mentionsSpecialNeeds (replyText reply) \<and>
       m = firstSentence (replyText reply) @ blankLine @
             content (finalRecommendation T u e))"
    unfolding m by (rule finalMessage_options)
  from rows sent opts stored show ?thesis
    by (intro exI conjI)
qed

theorem smartResponse_final_message_witness:
  "fst demoRun = Response 200 (MessageJson ''Recommend PARKING: pregnant.\<newline>\<newline>final'') \<and>
   (\<exists>r u e req reply c.
     eventUsers demoDb ''eu1'' = Some r \<and> users demoDb (userId r) = Some u \<and>
     events demoDb (eventId r) = Some e \<and> snd (snd demoRun) = [req] \<and>
     completion (demoEnv True (Inr (Some demoReply))) req = Inr reply \<and>
     (''Recommend PARKING: pregnant.\<newline>\<newline>final'' = replyText reply \<or>
      ''Recommend PARKING: pregnant.\<newline>\<newline>final'' = content (carRegistration demoTemplates u e) \<or>
      ''Recommend PARKING: pregnant.\<newline>\<newline>final''
         = content (finalRecommendation demoTemplates u e) \<or>
      ''Recommend PARKING: pregnant.\<newline>\<newline>final'' = content (contactAdmin demoTemplates u e) \<or>
      (mentionsSpecialNeeds (replyText reply) \<and>
       ''Recommend PARKING: pregnant.\<newline>\<newline>final''
         = firstSentence (replyText reply) @ blankLine @
             content (finalRecommendation demoTemplates u e))) \<and>
     conversations (fst (snd demoRun)) = conversations demoDb @ [c] \<and>
     message c = ''Recommend PARKING: pregnant.\<newline>\<newline>final'')"
proof -
  have run: "smartResponse demoTemplates (demoEnv True (Inr (Some demoReply))) demoDb ''eu1'' ''hi''
      = (Response 200 (MessageJson ''Recommend PARKING: pregnant.\<newline>\<newline>final''),
         fst (snd demoRun), snd (snd demoRun))"
    using demoRun_response by (simp add: demoRun_def prod_eq_iff)
  show ?thesis
    using demoRun_response smartResponse_final_message [OF run]
    by (rule conjI)
qed

text \<open>
  Claim C1 as stated fails: on the sample run the message returned is neither the reply
  nor the content of carRegistration, finalRecommendation or contactAdmin.
\<close>

theorem smartResponse_keep_or_template_counterexample:
  "fst demoRun = Response 200 (MessageJson ''Recommend PARKING: pregnant.\<newline>\<newline>final'') \<and>
   ''Recommend PARKING: pregnant.\<newline>\<newline>final''
     \<notin> {demoReply, content (carRegistration demoTemplates demoUser demoEvent),
        content (finalRecommendation demoTemplates demoUser demoEvent),
        content (contactAdmin demoTemplates demoUser demoEvent)}"
  using demoRun_response by (simp add: demoReply_def demoTemplates_def)

text \<open>Whatever the templates are, the sample reply is answered by its first sentence, a
  blank line and the final recommendation, which is neither the reply nor that
  template.\<close>

lemma finalMessage_special_needs:
  "finalMessage T u e demoReply
     = ''Recommend PARKING: pregnant.'' @ blankLine @ content (finalRecommendation T u e) \<and>
   finalMessage T u e demoReply \<noteq> demoReply \<and>
   finalMessage T u e demoReply \<noteq> content (finalRecommendation T u e)"
proof -
  have c1: "\<not> asksForPlate demoReply" by code_simp
  have c2: "\<not> givesFinalDetails demoReply" by code_simp
  have c3: "\<not> refersToOrganizer demoReply" by code_simp
  have c4: "mentionsSpecialNeeds demoReply" by code_simp
  have fs: "firstSentence demoReply = ''Recommend PARKING: pregnant.''" by code_simp
  from c1 c2 c3 c4 fs show ?thesis
    by (simp add: finalMessage_def demoReply_def blankLine_def)
qed

text \<open>
  Claim C2. The chain of conditions is a first match over the fixed sequence of rules
  car registration, final recommendation, contact admin, special needs: the first rule
  whose condition holds gives the final message, and the reply is kept when none holds.
\<close>

theorem finalMessage_first_match:
  "finalMessage T u e aiMessage = firstMatch (overrideRules T u e) aiMessage"
  by (simp add: finalMessage_def overrideRules_def)

text \<open>The order matters: a reply that asks to register the vehicle and also refers to
  the event organizer gets the car registration template.\<close>

lemma finalMessage_priority:
  "asksForPlate ''Register your vehicle or contact the event organizer'' \<and>
   refersToOrganizer ''Register your vehicle or contact the event organizer'' \<and>
   finalMessage demoTemplates demoUser demoEvent
     ''Register your vehicle or contact the event organizer'' = ''plate?''"
  by code_simp

section \<open>The request to the completion API\<close>

text \<open>
  Claim C3. A run of smart-response sends nothing to the completion API when the event
  user, its user or its event is not found (or the store does not answer), and otherwise
  sends one request whose messages are the initial greeting of the user and the event,
  then the fetched history in order, each row with role user when its sender is the
  string user and role assistant otherwise, then the new message with role user.
\<close>

theorem smartResponse_request_messages:
  assumes "smartResponse T E d euid msg = (res, d', sent)"
  shows "(sent = [] \<and>
      \<not> (answered E 0 \<and> answered E 1 \<and>
         (\<exists>r u e. eventUsers d euid = Some r \<and> users d (userId r) = Some u \<and>
                  events d (eventId r) = Some e))) \<or>
    (\<exists>r u e hist req. eventUsers d euid = Some r \<and> users d (userId r) = Some u \<and>
       events d (eventId r) = Some e \<and>
       prisma_conversation_findMany E 1 d euid (Some 10) = Inr hist \<and>
       sent = [req] \<and>
       messages req =
         initialGreeting T u e #
         map (\<lambda>c. \<lparr>role = (if sender c = ''user'' then User else Assistant),
                    content = message c\<rparr>) hist @
         [\<lparr>role = User, content = msg\<rparr>])"
  using smartResponse_cases [OF assms]
  by (auto simp: completionRequest_def formatMessage_def)

theorem smartResponse_request_messages_witness:
  "snd (snd demoRun) \<noteq> [] \<and>
   (\<exists>r u e hist req. eventUsers demoDb ''eu1'' = Some r \<and> users demoDb (userId r) = Some u \<and>
       events demoDb (eventId r) = Some e \<and>
       prisma_conversation_findMany (demoEnv True (Inr (Some demoReply))) 1 demoDb ''eu1''
         (Some 10) = Inr hist \<and>
       snd (snd demoRun) = [req] \<and>
       messages req =
         initialGreeting demoTemplates u e #
         map (\<lambda>c. \<lparr>role = (if sender c = ''user'' then User else Assistant),
                    content = message c\<rparr>) hist @
         [\<lparr>role = User, content = ''hi''\<rparr>])"
  using smartResponse_request_messages [OF demoRun_triple [unfolded demoRun_def]] demoRun_sent
  by (simp add: demoRun_def)

text \<open>
  Claim C9. A request to the completion API carries at most ten rows of history: the
  rows of the event user are ordered by creation time, oldest first, and the first ten
  are taken. So every row that is left out was created no earlier than every row that is
  sent: with more than ten rows stored, the ten oldest are sent, not the ten most recent.
\<close>

theorem smartResponse_history_oldest:
  assumes "smartResponse T E d euid msg = (res, d', sent)" and "sent \<noteq> []"
  shows "\<exists>u e hist rest.
     sent = [completionRequest T u e hist msg] \<and>
     messages (completionRequest T u e hist msg) =
       initialGreeting T u e # map formatMessage hist @ [\<lparr>role = User, content = msg\<rparr>] \<and>
     hist = take 10 (sort_key createdAt
              (filter (\<lambda>c. eventUserId c = euid) (conversations d))) \<and>
     length hist = min 10 (length (filter (\<lambda>c. eventUserId c = euid) (conversations d))) \<and>
     mset hist + mset rest = mset (filter (\<lambda>c. eventUserId c = euid) (conversations d)) \<and>
     sorted (map createdAt hist) \<and>
     (\<forall>a\<in>set hist. \<forall>b\<in>set rest. createdAt a \<le> createdAt b)"
proof -
  let ?rows = "sort_key createdAt (filter (\<lambda>c. eventUserId c = euid) (conversations d))"
  from smartResponse_cases [OF assms(1)] assms(2)
  obtain u e where sent: "sent = [completionRequest T u e (take 10 ?rows) msg]"
    by auto
  have srt: "sorted (map createdAt ?rows)"
    by (rule sorted_sort_key)
  have "mset (take 10 ?rows) + mset (drop 10 ?rows) = mset ?rows"
    by (simp flip: mset_append)
  then have ms: "mset (take 10 ?rows) + mset (drop 10 ?rows)
      = mset (filter (\<lambda>c. eventUserId c = euid) (conversations d))"
    by simp
  have len: "length (take 10 ?rows)
      = min 10 (length (filter (\<lambda>c. eventUserId c = euid) (conversations d)))"
    by simp
  have st: "sorted (map createdAt (take 10 ?rows))"
    using srt by (simp add: take_map [symmetric])
  have msgs: "messages (completionRequest T u e (take 10 ?rows) msg) =
       initialGreeting T u e # map formatMessage (take 10 ?rows) @ [\<lparr>role = User, content = msg\<rparr>]"
    by (simp add: completionRequest_def)
  from sent msgs len ms st sorted_take_le_drop [OF srt, of 10]
  show ?thesis by blast
qed

theorem smartResponse_history_oldest_witness:
  "snd (snd demoRun) \<noteq> [] \<and>
   (\<exists>u e hist rest.
     snd (snd demoRun) = [completionRequest demoTemplates u e hist ''hi''] \<and>
     messages (completionRequest demoTemplates u e hist ''hi'') =
       initialGreeting demoTemplates u e # map formatMessage hist @
       [\<lparr>role = User, content = ''hi''\<rparr>] \<and>
     hist = take 10 (sort_key createdAt
              (filter (\<lambda>c. eventUserId c = ''eu1'') (conversations demoDb))) \<and>
     length hist = min 10 (length (filter (\<lambda>c. eventUserId c = ''eu1'') (conversations demoDb))) \<and>
     mset hist + mset rest = mset (filter (\<lambda>c. eventUserId c = ''eu1'') (conversations demoDb)) \<and>
     sorted (map createdAt hist) \<and>
     (\<forall>a\<in>set hist. \<forall>b\<in>set rest. createdAt a \<le> createdAt b))"
proof -
  have tr: "smartResponse demoTemplates (demoEnv True (Inr (Some demoReply))) demoDb ''eu1'' ''hi''
      = (fst demoRun, fst (snd demoRun), snd (snd demoRun))"
    by (simp add: demoRun_def)
  show ?thesis
    using demoRun_sent smartResponse_history_oldest [OF tr demoRun_sent]
    by (rule conjI)
qed

text \<open>On the sample store, with eleven rows of the event user, the newest row (created at
  12) is the one that is not sent.\<close>

lemma demoRun_history:
  "prisma_conversation_findMany (demoEnv True (Inr (Some demoReply))) 1 demoDb ''eu1'' (Some 10)
     = Inr [demoRow 1 ''eu1'' ''user'', demoRow 2 ''eu1'' ''bot'', demoRow 4 ''eu1'' ''user'',
            demoRow 5 ''eu1'' ''bot'', demoRow 6 ''eu1'' ''user'', demoRow 7 ''eu1'' ''bot'',
            demoRow 8 ''eu1'' ''user'', demoRow 9 ''eu1'' ''bot'', demoRow 10 ''eu1'' ''user'',
            demoRow 11 ''eu1'' ''bot'']"
  by code_simp

section \<open>The routes that read and write the store\<close>

text \<open>
  Claim C5. When the store accepts the row, \<open>POST /\<close> answers 201 with the created
  row, which holds the event user, the sender and the message of the request and is the one
  row added to the store; when the store call fails, it answers 500 with the error
  \<open>Failed to create conversation\<close>, returns no row and leaves the store as it was.
\<close>

theorem createConversation_cases:
  "(answered E 0 \<longrightarrow>
      (\<exists>c. createConversation E d euid sndr m =
             (Response 201 (ConversationJson c), d\<lparr>conversations := conversations d @ [c]\<rparr>) \<and>
           eventUserId c = euid \<and> sender c = sndr \<and> message c = m)) \<and>
   (\<not> answered E 0 \<longrightarrow>
      createConversation E d euid sndr m =
        (Response 500 (ErrorJson ''Failed to create conversation''), d))"
  by (simp add: createConversation_eq)

theorem createConversation_cases_witness:
  "answered (demoEnv True (Inr None)) 0 \<and>
   (\<exists>c. createConversation (demoEnv True (Inr None)) demoDb ''eu1'' ''user'' ''hello'' =
           (Response 201 (ConversationJson c),
            demoDb\<lparr>conversations := conversations demoDb @ [c]\<rparr>) \<and>
         eventUserId c = ''eu1'' \<and> sender c = ''user'' \<and> message c = ''hello'') \<and>
   \<not> answered (demoEnv False (Inr None)) 0 \<and>
   createConversation (demoEnv False (Inr None)) demoDb ''eu1'' ''user'' ''hello'' =
     (Response 500 (ErrorJson ''Failed to create conversation''), demoDb)"
  using createConversation_cases [of "demoEnv True (Inr None)" demoDb "''eu1''" "''user''" "''hello''"]
    createConversation_cases [of "demoEnv False (Inr None)" demoDb "''eu1''" "''user''" "''hello''"]
  by (simp add: demoEnv_def)

text \<open>
  Claim C6. When the store answers the query, \<open>GET /:eventUserId\<close> answers with the
  stored rows whose event user is the path parameter, each as often as it is stored and no
  other row, in ascending order of creation time. The store is never changed.
\<close>

theorem getConversations_exact:
  "(answered E 0 \<longrightarrow>
      (\<exists>cs. getConversations E d euid = (Response 200 (ConversationsJson cs), d) \<and>
            mset cs = mset (filter (\<lambda>c. eventUserId c = euid) (conversations d)) \<and>
            sorted (map createdAt cs))) \<and>
   snd (getConversations E d euid) = d"
  by (simp add: getConversations_def prisma_conversation_findMany_def)

theorem getConversations_exact_witness:
  "answered (demoEnv True (Inr None)) 0 \<and>
   (\<exists>cs. getConversations (demoEnv True (Inr None)) demoDb ''eu2'' =
           (Response 200 (ConversationsJson cs), demoDb) \<and>
         mset cs = mset (filter (\<lambda>c. eventUserId c = ''eu2'') (conversations demoDb)) \<and>
         sorted (map createdAt cs)) \<and>
   snd (getConversations (demoEnv True (Inr None)) demoDb ''eu2'') = demoDb"
  using getConversations_exact [of "demoEnv True (Inr None)" demoDb "''eu2''"]
  by (simp add: demoEnv_def)

lemma getConversations_demo:
  "fst (getConversations (demoEnv True (Inr None)) demoDb ''eu2'') =
     Response 200 (ConversationsJson [demoRow 3 ''eu2'' ''user''])"
  by code_simp

text \<open>
  Claim C4, as the code has it. When no event user has the given key, register-plate
  changes nothing in the store and answers 404, or 500 when the store rejects the lookup.
  When the event user exists, its user exists and the store answers the lookup and the
  update, the car plate of that user is set to the given value, every other column, row
  and table stays, and the answer is the event user with the updated user and the event
  when the store also answers the second lookup, and 500 with the plate written when it
  does not. When the event user exists and the store rejects the lookup or the update, or
  the user is missing, the answer is 500 and the store is as it was.
\<close>

theorem registerPlate_cases:
  "(eventUsers d euid = None \<longrightarrow>
      snd (registerPlate E d euid plate) = d \<and>
      fst (registerPlate E d euid plate) =
        (if answered E 0 then Response 404 (ErrorJson ''Event user not found'')
         else Response 500 (ErrorJson ''Failed to register car plate''))) \<and>
   (eventUsers d euid = Some r \<and> answered E 0 \<and> answered E 1 \<and>
    users d (userId r) = Some u \<longrightarrow>
      snd (registerPlate E d euid plate) =
        d\<lparr>users := (users d)(userId r \<mapsto> u\<lparr>carPlate := Some plate\<rparr>)\<rparr> \<and>
      fst (registerPlate E d euid plate) =
        (if answered E 2
         then Response 200 (EventUserJson (Some
                \<lparr>key = euid, row = r, withUser = Some (u\<lparr>carPlate := Some plate\<rparr>),
                 withEvent = events d (eventId r)\<rparr>))
         else Response 500 (ErrorJson ''Failed to register car plate''))) \<and>
   (eventUsers d euid = Some r \<and>
    (\<not> answered E 0 \<or> \<not> answered E 1 \<or> users d (userId r) = None) \<longrightarrow>
      registerPlate E d euid plate =
        (Response 500 (ErrorJson ''Failed to register car plate''), d))"
  by (auto simp: registerPlate_eq)

text \<open>The sample store and its lookups.\<close>

lemma demoDb_lookups:
  "eventUsers demoDb ''nobody'' = None"
  "eventUsers demoDb ''eu1'' = Some \<lparr>userId = ''u1'', eventId = ''e1''\<rparr>"
  "users demoDb ''u1'' = Some demoUser"
  "events demoDb ''e1'' = Some demoEvent"
  by (simp_all add: demoDb_def)

lemma demoEnvFirst_answered: "answered (demoEnvFirst k) n = (n < k)"
  by (simp add: demoEnvFirst_def)

theorem registerPlate_cases_witness:
  "eventUsers demoDb ''nobody'' = None \<and>
   registerPlate (demoEnvFirst 3) demoDb ''nobody'' ''ABC123'' =
     (Response 404 (ErrorJson ''Event user not found''), demoDb) \<and>
   eventUsers demoDb ''eu1'' = Some \<lparr>userId = ''u1'', eventId = ''e1''\<rparr> \<and>
   users demoDb ''u1'' = Some demoUser \<and>
   registerPlate (demoEnvFirst 3) demoDb ''eu1'' ''ABC123'' =
     (Response 200 (EventUserJson (Some
        \<lparr>key = ''eu1'', row = \<lparr>userId = ''u1'', eventId = ''e1''\<rparr>,
         withUser = Some (demoUser\<lparr>carPlate := Some ''ABC123''\<rparr>),
         withEvent = Some demoEvent\<rparr>)),
      demoDb\<lparr>users := (users demoDb)(''u1'' \<mapsto> demoUser\<lparr>carPlate := Some ''ABC123''\<rparr>)\<rparr>) \<and>
   registerPlate (demoEnvFirst 2) demoDb ''eu1'' ''ABC123'' =
     (Response 500 (ErrorJson ''Failed to register car plate''),
      demoDb\<lparr>users := (users demoDb)(''u1'' \<mapsto> demoUser\<lparr>carPlate := Some ''ABC123''\<rparr>)\<rparr>) \<and>
   registerPlate (demoEnvFirst 1) demoDb ''eu1'' ''ABC123'' =
     (Response 500 (ErrorJson ''Failed to register car plate''), demoDb)"
proof -
  have missing: "registerPlate (demoEnvFirst 3) demoDb ''nobody'' ''ABC123'' =
     (Response 404 (ErrorJson ''Event user not found''), demoDb)"
    using registerPlate_cases [of demoDb "''nobody''" "demoEnvFirst 3" "''ABC123''"
        "\<lparr>userId = ''u1'', eventId = ''e1''\<rparr>" demoUser]
    by (simp add: demoDb_lookups demoEnvFirst_answered prod_eq_iff)
  have written: "registerPlate (demoEnvFirst 3) demoDb ''eu1'' ''ABC123'' =
     (Response 200 (EventUserJson (Some
        \<lparr>key = ''eu1'', row = \<lparr>userId = ''u1'', eventId = ''e1''\<rparr>,
         withUser = Some (demoUser\<lparr>carPlate := Some ''ABC123''\<rparr>),
         withEvent = Some demoEvent\<rparr>)),
      demoDb\<lparr>users := (users demoDb)(''u1'' \<mapsto> demoUser\<lparr>carPlate := Some ''ABC123''\<rparr>)\<rparr>)"
    using registerPlate_cases [of demoDb "''eu1''" "demoEnvFirst 3" "''ABC123''"
        "\<lparr>userId = ''u1'', eventId = ''e1''\<rparr>" demoUser]
    by (simp add: demoDb_lookups demoEnvFirst_answered prod_eq_iff)
  have late: "registerPlate (demoEnvFirst 2) demoDb ''eu1'' ''ABC123'' =
     (Response 500 (ErrorJson ''Failed to register car plate''),
      demoDb\<lparr>users := (users demoDb)(''u1'' \<mapsto> demoUser\<lparr>carPlate := Some ''ABC123''\<rparr>)\<rparr>)"
    using registerPlate_cases [of demoDb "''eu1''" "demoEnvFirst 2" "''ABC123''"
        "\<lparr>userId = ''u1'', eventId = ''e1''\<rparr>" demoUser]
    by (simp add: demoDb_lookups demoEnvFirst_answered prod_eq_iff)
  have early: "registerPlate (demoEnvFirst 1) demoDb ''eu1'' ''ABC123'' =
     (Response 500 (ErrorJson ''Failed to register car plate''), demoDb)"
    using registerPlate_cases [of demoDb "''eu1''" "demoEnvFirst 1" "''ABC123''"
        "\<lparr>userId = ''u1'', eventId = ''e1''\<rparr>" demoUser]
    by (simp add: demoDb_lookups demoEnvFirst_answered)
  from missing written late early show ?thesis
    by (simp add: demoDb_lookups)
qed

text \<open>
  Claim C4 as stated fails: the event user of the sample store exists, and when the store
  answers the lookup and the update and rejects the second lookup, the route answers 500
  instead of the event user, with the plate of the user already written.
\<close>

theorem registerPlate_exists_counterexample:
  "eventUsers demoDb ''eu1'' = Some \<lparr>userId = ''u1'', eventId = ''e1''\<rparr> \<and>
   fst (registerPlate (demoEnvFirst 2) demoDb ''eu1'' ''ABC123'') =
     Response 500 (ErrorJson ''Failed to register car plate'') \<and>
   users (snd (registerPlate (demoEnvFirst 2) demoDb ''eu1'' ''ABC123'')) ''u1'' =
     Some \<lparr>carPlate = Some ''ABC123'', otherColumns = [(''firstName'', ''Ada'')]\<rparr> \<and>
   users demoDb ''u1'' = Some \<lparr>carPlate = None, otherColumns = [(''firstName'', ''Ada'')]\<rparr>"
  by (simp add: registerPlate_eq demoDb_lookups demoEnvFirst_answered demoUser_def)

text \<open>
  Claim C8. A run of \<open>POST /\<close> or of smart-response adds at most one row to the
  conversations, and the row it adds has its conversation id equal to its event user id,
  the one of the request; the other routes add none. So the equality, once true of all
  stored rows, stays true.
\<close>

theorem routes_conversationId:
  "(\<exists>new. conversations (snd (createConversation E d euid sndr m)) = conversations d @ new \<and>
      length new \<le> 1 \<and>
      (\<forall>c\<in>set new. conversationId c = eventUserId c \<and> eventUserId c = euid)) \<and>
   (\<exists>new. conversations (fst (snd (smartResponse T E d euid msg))) = conversations d @ new \<and>
      length new \<le> 1 \<and>
      (\<forall>c\<in>set new. conversationId c = eventUserId c \<and> eventUserId c = euid)) \<and>
   conversations (snd (getConversations E d euid)) = conversations d \<and>
   conversations (snd (registerPlate E d euid plate)) = conversations d \<and>
   ((\<forall>c\<in>set (conversations d). conversationId c = eventUserId c) \<longrightarrow>
      (\<forall>c\<in>set (conversations (snd (createConversation E d euid sndr m))).
         conversationId c = eventUserId c) \<and>
      (\<forall>c\<in>set (conversations (fst (snd (smartResponse T E d euid msg)))).
         conversationId c = eventUserId c))"
proof -
  have create: "\<exists>new. conversations (snd (createConversation E d euid sndr m)) = conversations d @ new \<and>
      length new \<le> 1 \<and>
      (\<forall>c\<in>set new. conversationId c = eventUserId c \<and> eventUserId c = euid)"
  proof (cases "answered E 0")
    case True
    then show ?thesis
      by (intro exI [of _ "[\<lparr>rowId = freshRowId E, conversationId = euid, eventUserId = euid,
                sender = sndr, message = m, createdAt = clock E\<rparr>]"])
         (simp add: createConversation_eq)
  next
    case False
    then show ?thesis
      by (intro exI [of _ "[]"]) (simp add: createConversation_eq)
  qed
  have smart: "\<exists>new. conversations (fst (snd (smartResponse T E d euid msg))) = conversations d @ new \<and>
      length new \<le> 1 \<and>
      (\<forall>c\<in>set new. conversationId c = eventUserId c \<and> eventUserId c = euid)"
    using smartResponse_cases [of T E d euid msg "fst (smartResponse T E d euid msg)"
        "fst (snd (smartResponse T E d euid msg))" "snd (snd (smartResponse T E d euid msg))"]
    by auto
  have get: "conversations (snd (getConversations E d euid)) = conversations d"
    by (simp add: getConversations_def prisma_conversation_findMany_def)
  have reg: "conversations (snd (registerPlate E d euid plate)) = conversations d"
    by (simp add: registerPlate_eq split: option.splits)
  from create smart get reg show ?thesis
    by (intro conjI impI; fastforce)
qed

lemma demoDb_invariant:
  "list_all (\<lambda>c. conversationId c = eventUserId c) (conversations demoDb)"
  by code_simp

theorem routes_conversationId_witness:
  "list_all (\<lambda>c. conversationId c = eventUserId c) (conversations demoDb) \<and>
   list_all (\<lambda>c. conversationId c = eventUserId c)
     (conversations (snd (createConversation (demoEnv True (Inr (Some demoReply))) demoDb
        ''eu1'' ''user'' ''hello''))) \<and>
   list_all (\<lambda>c. conversationId c = eventUserId c) (conversations (fst (snd demoRun)))"
proof -
  have inv: "\<forall>c\<in>set (conversations demoDb). conversationId c = eventUserId c"
    using demoDb_invariant by (simp only: list_all_iff)
  have "(\<forall>c\<in>set (conversations (snd (createConversation (demoEnv True (Inr (Some demoReply)))
              demoDb ''eu1'' ''user'' ''hello''))). conversationId c = eventUserId c) \<and>
        (\<forall>c\<in>set (conversations (fst (snd (smartResponse demoTemplates
              (demoEnv True (Inr (Some demoReply))) demoDb ''eu1'' ''hi'')))).
            conversationId c = eventUserId c)"
    using routes_conversationId [where E = "demoEnv True (Inr (Some demoReply))" and d = demoDb
      and euid = "''eu1''" and sndr = "''user''" and m = "''hello''" and T = demoTemplates
      and msg = "''hi''"] inv
    by blast
  then show ?thesis
    using demoDb_invariant by (simp only: list_all_iff demoRun_def) 
qed

text \<open>
  Claim C10. The chat route answers in two cases only: with the contactAdmin template when
  the message in lower case is \<open>no\<close>, and with status 500 and the errorResponse
  template when an error is thrown (the message is missing or is not a string). For every
  other message it sends no response.
\<close>

theorem chat_cases:
  "(toLowerCase m = ''no'' \<longrightarrow>
      chat T (Some m) u e = Some (Response 200 (TemplateJson (contactAdmin T u e)))) \<and>
   chat T None u e = Some (Response 500 (TemplateJson (errorResponse T))) \<and>
   (toLowerCase m \<noteq> ''no'' \<longrightarrow> chat T (Some m) u e = None)"
  by (simp add: chat_def)

lemma lower_No: "toLowerCase ''No'' = ''no''"
  by code_simp

lemma lower_yes: "toLowerCase ''Yes'' \<noteq> ''no''"
  by code_simp

theorem chat_cases_witness:
  "toLowerCase ''No'' = ''no'' \<and>
   chat demoTemplates (Some ''No'') demoUser demoEvent =
     Some (Response 200 (TemplateJson \<lparr>role = Assistant, content = ''admin''\<rparr>)) \<and>
   chat demoTemplates None demoUser demoEvent =
     Some (Response 500 (TemplateJson \<lparr>role = Assistant, content = ''error''\<rparr>)) \<and>
   toLowerCase ''Yes'' \<noteq> ''no'' \<and>
   chat demoTemplates (Some ''Yes'') demoUser demoEvent = None"
  using chat_cases [of "''No''" demoTemplates demoUser demoEvent]
    chat_cases [of "''Yes''" demoTemplates demoUser demoEvent] lower_No lower_yes
  by (simp add: demoTemplates_def)

section \<open>The reducers of the user slice\<close>

text \<open>
  Claim C7. Each reducer of the user slice writes its own field and leaves the two others
  as they were; a state is its three fields user, loading and error; the initial state
  has no user, is not loading and has no error.
\<close>

theorem userSlice_frame:
  "loading (setUser s p) = loading s \<and> error (setUser s p) = error s \<and>
   user (setUser s p) = payload_user p \<and>
   user (setLoading s b) = user s \<and> error (setLoading s b) = error s \<and>
   loading (setLoading s b) = b \<and>
   user (setError s x) = user s \<and> loading (setError s x) = loading s \<and>
   error (setError s x) = x \<and>
   s = \<lparr>user = user s, loading = loading s, error = error s\<rparr> \<and>
   initialState = \<lparr>user = None, loading = False, error = None\<rparr>"
  by (simp add: setUser_def setLoading_def setError_def initialState_def)

end
